theory Spec2Isabelle
  imports Complex_Main
begin

section \<open>The relay server of \<open>src/server.py\<close>\<close>

text \<open>
  The server keeps the newest camera frame and the newest audio chunk in module-level
  globals, overwrites them on every upload and hands them out to any number of viewers
  through two generator functions. The model below is a state-passing translation of
  the handlers and generators.

  Conventions.
  \<^item> Python \<open>bytes\<close> and \<open>str\<close> are \<open>char list\<close>; a \<open>char\<close> is one byte.
  \<^item> \<open>time.time()\<close> is an input: every function that reads the clock takes the reading
    as an argument, in the order in which the source reads it. Readings are real numbers;
    the code only subtracts two readings and compares the difference to a constant.
  \<^item> A \<open>with lock:\<close> block is one atomic step. A statement that updates a global outside
    any lock is split where another thread can come in between: \<open>clients_count += 1\<close> is
    a load of the global followed by a store of the loaded value plus one.
  \<^item> Logging and \<open>time.sleep\<close> are left out: they write to no variable of the program.
\<close>

subsection \<open>Configuration and globals\<close>

type_synonym bytes = "char list"

definition FRAME_EXPIRY_SECONDS :: real where
  "FRAME_EXPIRY_SECONDS = 10"

definition AUDIO_EXPIRY_SECONDS :: real where
  "AUDIO_EXPIRY_SECONDS = 5"

record server =
  current_frame :: "bytes option"
  frame_time :: real
  current_audio :: "bytes option"
  audio_time :: real
  clients_count :: int
  audio_clients_count :: int

text \<open>The values the module assigns at import time.\<close>

definition initial :: server where
  "initial = \<lparr>current_frame = None, frame_time = 0,
              current_audio = None, audio_time = 0,
              clients_count = 0, audio_clients_count = 0\<rparr>"

subsection \<open>Upload handlers\<close>

text \<open>
  The handlers never look at the request body itself: they test and store
  \<open>request.data\<close>. That attribute is computed by Werkzeug, which first lets its form
  parser run. For a request that represents form data (a body sent as
  \<open>application/x-www-form-urlencoded\<close>, or as \<open>multipart/form-data\<close> with its boundary)
  the parser reads the body, and \<open>request.data\<close> is empty whatever the body was; for
  every other request \<open>request.data\<close> is the body. Of a request the model keeps the body
  and whether the form parser has read it.
\<close>

record request =
  request_body :: bytes
  form_parsed :: bool

definition request_data :: "request \<Rightarrow> bytes" where
  "request_data rq = (if form_parsed rq then [] else request_body rq)"

text \<open>
  \<open>upload\<close> and \<open>upload_audio\<close> take the value of \<open>request.data\<close> and the clock reading
  and return the new globals with the response (text, HTTP status code).
  \<open>not request.data\<close> is true exactly when \<open>request.data\<close> is empty.
\<close>

definition upload :: "server \<Rightarrow> bytes \<Rightarrow> real \<Rightarrow> server \<times> string \<times> nat" where
  "upload s data now =
     (if data = [] then (s, ''No data'', 400)
      else (s\<lparr>current_frame := Some data, frame_time := now\<rparr>, ''OK'', 200))"

definition upload_audio :: "server \<Rightarrow> bytes \<Rightarrow> real \<Rightarrow> server \<times> string \<times> nat" where
  "upload_audio s data now =
     (if data = [] then (s, ''No data'', 400)
      else (s\<lparr>current_audio := Some data, audio_time := now\<rparr>, ''OK'', 200))"

subsection \<open>Library functions the handlers call\<close>

text \<open>
  \<open>base64.b64encode\<close> of the Python standard library (RFC 4648, with padding): three
  bytes become four characters of the alphabet, a rest of one or two bytes is padded
  with \<open>=\<close>. The \<open>.decode('utf-8')\<close> that follows is the identity on its ASCII output.
\<close>

definition b64_alphabet :: string where
  "b64_alphabet = ''ABCDEFGHIJKLMNOPQRSTUVWXYZabcdefghijklmnopqrstuvwxyz0123456789+/''"

definition b64_char :: "nat \<Rightarrow> char" where
  "b64_char i = b64_alphabet ! (i mod 64)"

fun b64encode :: "bytes \<Rightarrow> string" where
  "b64encode [] = []"
| "b64encode [a] =
     (let n = of_char a * 65536 :: nat
      in [b64_char (n div 262144), b64_char (n div 4096), CHR ''='', CHR ''=''])"
| "b64encode [a, b] =
     (let n = of_char a * 65536 + of_char b * 256 :: nat
      in [b64_char (n div 262144), b64_char (n div 4096), b64_char (n div 64), CHR ''=''])"
| "b64encode (a # b # c # rest) =
     (let n = of_char a * 65536 + of_char b * 256 + of_char c :: nat
      in [b64_char (n div 262144), b64_char (n div 4096), b64_char (n div 64), b64_char n]
         @ b64encode rest)"

text \<open>
  \<open>int(x)\<close> on a float truncates towards zero; an integer in an f-string is printed in
  decimal.
\<close>

definition py_int :: "real \<Rightarrow> int" where
  "py_int x = (if 0 \<le> x then \<lfloor>x\<rfloor> else \<lceil>x\<rceil>)"

fun str_nat :: "nat \<Rightarrow> string" where
  "str_nat n =
     (if n < 10 then [char_of (48 + n)]
      else str_nat (n div 10) @ [char_of (48 + n mod 10)])"

definition str_int :: "int \<Rightarrow> string" where
  "str_int i = (if i < 0 then CHR ''-'' # str_nat (nat (- i)) else str_nat (nat i))"

subsection \<open>Stream generators\<close>

text \<open>
  One pass through the body of \<open>while True:\<close> in \<open>gen_frames\<close>, up to its \<open>yield\<close>: the
  snapshot taken under the lock, the clock reading, the part that is yielded. The globals
  are returned as the pass leaves them.
\<close>

definition snapshot_frame :: "server \<Rightarrow> bytes option \<times> real" where
  "snapshot_frame s = (current_frame s, frame_time s)"

definition snapshot_audio :: "server \<Rightarrow> bytes option \<times> real" where
  "snapshot_audio s = (current_audio s, audio_time s)"

definition gen_frames_iteration :: "server \<Rightarrow> real \<Rightarrow> server \<times> bytes" where
  "gen_frames_iteration s now =
     (let (frame, last_frame_time) = snapshot_frame s
      in if frame \<noteq> None \<and> now - last_frame_time < FRAME_EXPIRY_SECONDS
         then (s, ''--frame'' @ [CHR 0x0D, CHR 0x0A]
                  @ ''Content-Type: image/jpeg'' @ [CHR 0x0D, CHR 0x0A, CHR 0x0D, CHR 0x0A]
                  @ the frame @ [CHR 0x0D, CHR 0x0A])
         else (s, ''--frame'' @ [CHR 0x0D, CHR 0x0A]
                  @ ''Content-Type: image/jpeg'' @ [CHR 0x0D, CHR 0x0A, CHR 0x0D, CHR 0x0A]
                  @ [CHR 0x0D, CHR 0x0A]))"

text \<open>
  The same for \<open>gen_audio\<close>. The clock is read once for the comparison (only when there
  is a chunk: \<open>and\<close> short-circuits) and once more for the heartbeat; \<open>now\<close> and \<open>now_hb\<close>
  are these two readings. \<open>repr_float\<close> is Python's printing of a float inside an
  f-string. The quotes the f-string writes are single quotes, \<open>CHR 0x27\<close>.
\<close>

definition gen_audio_iteration :: "(real \<Rightarrow> string) \<Rightarrow> server \<Rightarrow> real \<Rightarrow> real \<Rightarrow> server \<times> string" where
  "gen_audio_iteration repr_float s now now_hb =
     (let (audio, last_audio_time) = snapshot_audio s
      in if audio \<noteq> None \<and> now - last_audio_time < AUDIO_EXPIRY_SECONDS
         then (let audio_b64 = b64encode (the audio)
               in (s, ''data: {'' @ [CHR 0x27] @ ''audio'' @ [CHR 0x27] @ '': '' @ [CHR 0x27]
                      @ audio_b64 @ [CHR 0x27] @ ''}'' @ [CHR 0x0A, CHR 0x0A]))
         else (s, ''data: {'' @ [CHR 0x27] @ ''heartbeat'' @ [CHR 0x27] @ '': ''
                  @ repr_float now_hb @ ''}'' @ [CHR 0x0A, CHR 0x0A]))"

text \<open>
  A generator object is created and not yet run, suspended at its \<open>yield\<close>, or closed.
  \<open>next\<close> runs the body up to the next \<open>yield\<close>. The first \<open>next\<close> begins with
  \<open>clients_count += 1\<close>, which no lock protects while the server runs one thread per
  request (\<open>threaded=True\<close>): the thread loads the global, and stores the loaded value
  plus one, and other threads can run in between. \<open>Loaded v\<close> is the generator whose
  thread has loaded \<open>v\<close> and not yet stored. \<open>gen_frames_load\<close> is the load;
  \<open>gen_frames_next\<close> on \<open>Loaded v\<close> is the store and the rest of the call, and on
  \<open>Created\<close> it is the whole call with nothing in between.

  \<open>close\<close> is what the WSGI layer calls when the client has gone or a write has failed:
  on a suspended generator it raises \<open>GeneratorExit\<close> at the \<open>yield\<close>, so the \<open>finally\<close>
  block runs, whose decrement is a \<open>with lock:\<close> block; on a generator that never ran it
  runs no code of the body; on a closed one it does nothing. A generator that is inside
  its first \<open>next\<close> is running, and cannot be closed before that call returns.
\<close>

datatype gen_pc = Created | Loaded int | Suspended | Closed

definition gen_frames_load :: "server \<Rightarrow> gen_pc \<Rightarrow> server \<times> gen_pc" where
  "gen_frames_load s pc =
     (case pc of
        Created \<Rightarrow> (s, Loaded (clients_count s))
      | Loaded v \<Rightarrow> (s, Loaded v)
      | Suspended \<Rightarrow> (s, Suspended)
      | Closed \<Rightarrow> (s, Closed))"

definition gen_frames_next :: "server \<Rightarrow> gen_pc \<Rightarrow> real \<Rightarrow> (server \<times> gen_pc) \<times> bytes option" where
  "gen_frames_next s pc now =
     (case pc of
        Created \<Rightarrow>
          (let s1 = s\<lparr>clients_count := clients_count s + 1\<rparr>;
               (s2, part) = gen_frames_iteration s1 now
           in ((s2, Suspended), Some part))
      | Loaded v \<Rightarrow>
          (let s1 = s\<lparr>clients_count := v + 1\<rparr>;
               (s2, part) = gen_frames_iteration s1 now
           in ((s2, Suspended), Some part))
      | Suspended \<Rightarrow>
          (let (s1, part) = gen_frames_iteration s now
           in ((s1, Suspended), Some part))
      | Closed \<Rightarrow> ((s, Closed), None))"

definition gen_frames_close :: "server \<Rightarrow> gen_pc \<Rightarrow> server \<times> gen_pc" where
  "gen_frames_close s pc =
     (case pc of
        Created \<Rightarrow> (s, Closed)
      | Loaded v \<Rightarrow> (s, Loaded v)
      | Suspended \<Rightarrow> (s\<lparr>clients_count := clients_count s - 1\<rparr>, Closed)
      | Closed \<Rightarrow> (s, Closed))"

definition gen_audio_load :: "server \<Rightarrow> gen_pc \<Rightarrow> server \<times> gen_pc" where
  "gen_audio_load s pc =
     (case pc of
        Created \<Rightarrow> (s, Loaded (audio_clients_count s))
      | Loaded v \<Rightarrow> (s, Loaded v)
      | Suspended \<Rightarrow> (s, Suspended)
      | Closed \<Rightarrow> (s, Closed))"

definition gen_audio_next ::
  "(real \<Rightarrow> string) \<Rightarrow> server \<Rightarrow> gen_pc \<Rightarrow> real \<Rightarrow> real \<Rightarrow> (server \<times> gen_pc) \<times> string option" where
  "gen_audio_next repr_float s pc now now_hb =
     (case pc of
        Created \<Rightarrow>
          (let s1 = s\<lparr>audio_clients_count := audio_clients_count s + 1\<rparr>;
               (s2, ev) = gen_audio_iteration repr_float s1 now now_hb
           in ((s2, Suspended), Some ev))
      | Loaded v \<Rightarrow>
          (let s1 = s\<lparr>audio_clients_count := v + 1\<rparr>;
               (s2, ev) = gen_audio_iteration repr_float s1 now now_hb
           in ((s2, Suspended), Some ev))
      | Suspended \<Rightarrow>
          (let (s1, ev) = gen_audio_iteration repr_float s now now_hb
           in ((s1, Suspended), Some ev))
      | Closed \<Rightarrow> ((s, Closed), None))"

definition gen_audio_close :: "server \<Rightarrow> gen_pc \<Rightarrow> server \<times> gen_pc" where
  "gen_audio_close s pc =
     (case pc of
        Created \<Rightarrow> (s, Closed)
      | Loaded v \<Rightarrow> (s, Loaded v)
      | Suspended \<Rightarrow> (s\<lparr>audio_clients_count := audio_clients_count s - 1\<rparr>, Closed)
      | Closed \<Rightarrow> (s, Closed))"

subsection \<open>Status handler\<close>

text \<open>
  The dictionary handed to \<open>jsonify\<close>; \<open>status_text\<close> is the value under the key
  \<open>"status"\<close>. The clock is read once in each of the two locked blocks (\<open>now_v\<close>,
  \<open>now_a\<close>). \<open>strftime\<close> stands for
  \<open>datetime.datetime.fromtimestamp(t).strftime('%H:%M:%S')\<close>, which depends on the time
  zone of the host. The age is \<open>float('inf')\<close> only when there is no item, and then the
  first branch is taken and the age is not read; so the model computes the age in the
  branches that read it.
\<close>

record status_json =
  status_text :: string
  clients :: int
  audio_clients :: int
  last_frame :: string
  audio_status :: string

definition status :: "(real \<Rightarrow> string) \<Rightarrow> server \<Rightarrow> real \<Rightarrow> real \<Rightarrow> server \<times> status_json" where
  "status strftime s now_v now_a =
     (let has_frame = (current_frame s \<noteq> None);
          frame_age = now_v - frame_time s;
          text_v = (if \<not> has_frame then ''No frames received yet''
                    else if frame_age > FRAME_EXPIRY_SECONDS
                    then ''Camera offline (last frame '' @ str_int (py_int frame_age) @ ''s ago)''
                    else ''Online'');
          last = (if has_frame then strftime (frame_time s) else ''Never'');
          has_audio = (current_audio s \<noteq> None);
          audio_age = now_a - audio_time s;
          text_a = (if \<not> has_audio then ''No audio received yet''
                    else if audio_age > AUDIO_EXPIRY_SECONDS
                    then ''Microphone offline (last audio '' @ str_int (py_int audio_age) @ ''s ago)''
                    else ''Receiving audio'')
      in (s, \<lparr>status_text = text_v, clients = clients_count s,
               audio_clients = audio_clients_count s, last_frame = last,
               audio_status = text_a\<rparr>))"

subsection \<open>The server as a transition system\<close>

text \<open>
  The whole server: the globals and the generator objects of the open video and audio
  responses, in the order in which they were created. An event is one request or one
  step of one response's generator; a run is a list of events, taken in the order in
  which the locks and the interpreter serialise them. \<open>Upload data now\<close> is a
  \<open>POST /upload\<close> whose \<open>request.data\<close> is \<open>data\<close>. \<open>stream\<close> and \<open>audio_stream\<close> only
  build the generator. \<open>StreamLoad i\<close> is the load of \<open>clients_count += 1\<close> in generator
  \<open>i\<close>, when its thread is interrupted before the store; \<open>StreamNext i now\<close> is the call
  of \<open>next\<close>, or what is left of it after the load. An event that names a generator that
  does not exist cannot happen, and leaves the system as it is.
\<close>

record system =
  globals :: server
  streams :: "gen_pc list"
  audio_streams :: "gen_pc list"

definition start :: system where
  "start = \<lparr>globals = initial, streams = [], audio_streams = []\<rparr>"

datatype event =
    Upload bytes real
  | UploadAudio bytes real
  | Status real real
  | Stream
  | StreamLoad nat
  | StreamNext nat real
  | StreamClose nat
  | AudioStream
  | AudioLoad nat
  | AudioNext nat real real
  | AudioClose nat

fun step :: "(real \<Rightarrow> string) \<Rightarrow> (real \<Rightarrow> string) \<Rightarrow> system \<Rightarrow> event \<Rightarrow> system" where
  "step strftime repr_float y (Upload data now) =
     y\<lparr>globals := fst (upload (globals y) data now)\<rparr>"
| "step strftime repr_float y (UploadAudio data now) =
     y\<lparr>globals := fst (upload_audio (globals y) data now)\<rparr>"
| "step strftime repr_float y (Status now_v now_a) =
     y\<lparr>globals := fst (status strftime (globals y) now_v now_a)\<rparr>"
| "step strftime repr_float y Stream = y\<lparr>streams := streams y @ [Created]\<rparr>"
| "step strftime repr_float y (StreamLoad i) =
     (if i < length (streams y)
      then (let (s, pc) = gen_frames_load (globals y) (streams y ! i)
            in y\<lparr>globals := s, streams := (streams y)[i := pc]\<rparr>)
      else y)"
| "step strftime repr_float y (StreamNext i now) =
     (if i < length (streams y)
      then (let (s, pc) = fst (gen_frames_next (globals y) (streams y ! i) now)
            in y\<lparr>globals := s, streams := (streams y)[i := pc]\<rparr>)
      else y)"
| "step strftime repr_float y (StreamClose i) =
     (if i < length (streams y)
      then (let (s, pc) = gen_frames_close (globals y) (streams y ! i)
            in y\<lparr>globals := s, streams := (streams y)[i := pc]\<rparr>)
      else y)"
| "step strftime repr_float y AudioStream = y\<lparr>audio_streams := audio_streams y @ [Created]\<rparr>"
| "step strftime repr_float y (AudioLoad i) =
     (if i < length (audio_streams y)
      then (let (s, pc) = gen_audio_load (globals y) (audio_streams y ! i)
            in y\<lparr>globals := s, audio_streams := (audio_streams y)[i := pc]\<rparr>)
      else y)"
| "step strftime repr_float y (AudioNext i now now_hb) =
     (if i < length (audio_streams y)
      then (let (s, pc) = fst (gen_audio_next repr_float (globals y) (audio_streams y ! i) now now_hb)
            in y\<lparr>globals := s, audio_streams := (audio_streams y)[i := pc]\<rparr>)
      else y)"
| "step strftime repr_float y (AudioClose i) =
     (if i < length (audio_streams y)
      then (let (s, pc) = gen_audio_close (globals y) (audio_streams y ! i)
            in y\<lparr>globals := s, audio_streams := (audio_streams y)[i := pc]\<rparr>)
      else y)"

fun run :: "(real \<Rightarrow> string) \<Rightarrow> (real \<Rightarrow> string) \<Rightarrow> system \<Rightarrow> event list \<Rightarrow> system" where
  "run strftime repr_float y [] = y"
| "run strftime repr_float y (e # es) = run strftime repr_float (step strftime repr_float y e) es"

text \<open>The events that store a frame, and those that store an audio chunk.\<close>

fun stores_frame :: "event \<Rightarrow> bool" where
  "stores_frame (Upload data now) = (data \<noteq> [])"
| "stores_frame _ = False"

fun stores_audio :: "event \<Rightarrow> bool" where
  "stores_audio (UploadAudio data now) = (data \<noteq> [])"
| "stores_audio _ = False"

text \<open>The clock readings that a run stores into each slot, in the order of the run.\<close>

fun frame_upload_times :: "event list \<Rightarrow> real list" where
  "frame_upload_times [] = []"
| "frame_upload_times (Upload data now # es) =
     (if data \<noteq> [] then now # frame_upload_times es else frame_upload_times es)"
| "frame_upload_times (e # es) = frame_upload_times es"

fun audio_upload_times :: "event list \<Rightarrow> real list" where
  "audio_upload_times [] = []"
| "audio_upload_times (UploadAudio data now # es) =
     (if data \<noteq> [] then now # audio_upload_times es else audio_upload_times es)"
| "audio_upload_times (e # es) = audio_upload_times es"

text \<open>The four variables of the two slots.\<close>

definition slots :: "server \<Rightarrow> (bytes option \<times> real) \<times> (bytes option \<times> real)" where
  "slots s = (snapshot_frame s, snapshot_audio s)"

subsection \<open>The formats the specification names\<close>

text \<open>
  One part of the multipart response as the specification writes it:
  \<open>--frame\r\nContent-Type: image/jpeg\r\n\r\n<payload>\r\n\<close>.
\<close>

definition multipart_part :: "bytes \<Rightarrow> bytes" where
  "multipart_part payload =
     ''--frame'' @ [CHR 0x0D, CHR 0x0A] @ ''Content-Type: image/jpeg''
     @ [CHR 0x0D, CHR 0x0A, CHR 0x0D, CHR 0x0A] @ payload @ [CHR 0x0D, CHR 0x0A]"

text \<open>
  The audio event as the specification writes it, with double quotes (\<open>CHR 0x22\<close>):
  \<open>data: {"audio": "<base64>"}\n\n\<close>.
\<close>

definition spec_audio_event :: "string \<Rightarrow> string" where
  "spec_audio_event b64 =
     ''data: {'' @ [CHR 0x22] @ ''audio'' @ [CHR 0x22] @ '': '' @ [CHR 0x22] @ b64
     @ [CHR 0x22] @ ''}'' @ [CHR 0x0A, CHR 0x0A]"

text \<open>The freshness rule as the specification writes it: \<open>isFresh = age < threshold\<close>.\<close>

definition isFresh :: "real \<Rightarrow> real \<Rightarrow> bool" where
  "isFresh age threshold = (age < threshold)"

subsection \<open>Theorems\<close>

text \<open>
  C3, as stated, fails in its second part. A request with the non-empty body \<open>a=1\<close>
  that represents form data has an empty \<open>request.data\<close>: both handlers answer 400 and
  store nothing.
\<close>

theorem form_body_is_answered_400:
  "request_body \<lparr>request_body = ''a=1'', form_parsed = True\<rparr> \<noteq> [] \<and>
   request_data \<lparr>request_body = ''a=1'', form_parsed = True\<rparr> = [] \<and>
   upload initial (request_data \<lparr>request_body = ''a=1'', form_parsed = True\<rparr>) 7 =
     (initial, ''No data'', 400) \<and>
   upload_audio initial (request_data \<lparr>request_body = ''a=1'', form_parsed = True\<rparr>) 7 =
     (initial, ''No data'', 400)"
  by (simp add: request_data_def upload_def upload_audio_def)

text \<open>
  C3, amended. An upload whose \<open>request.data\<close> is empty answers 400 and returns the
  globals as they were; that is the case for a request with an empty body and for a
  request that represents form data. An upload whose \<open>request.data\<close> is not empty answers
  200 and stores it together with the clock reading; that is the case for a non-empty
  body that does not represent form data, and what is stored is the body. Both hold for
  \<open>/upload\<close> and for \<open>/upload-audio\<close>.
\<close>

theorem upload_answers_by_request_data:
  "upload s [] now = (s, ''No data'', 400) \<and>
   upload_audio s [] now = (s, ''No data'', 400) \<and>
   (data \<noteq> [] \<longrightarrow>
      upload s data now = (s\<lparr>current_frame := Some data, frame_time := now\<rparr>, ''OK'', 200) \<and>
      upload_audio s data now = (s\<lparr>current_audio := Some data, audio_time := now\<rparr>, ''OK'', 200)) \<and>
   (request_body rq = [] \<or> form_parsed rq \<longrightarrow>
      upload s (request_data rq) now = (s, ''No data'', 400) \<and>
      upload_audio s (request_data rq) now = (s, ''No data'', 400)) \<and>
   (request_body rq \<noteq> [] \<and> \<not> form_parsed rq \<longrightarrow>
      upload s (request_data rq) now =
        (s\<lparr>current_frame := Some (request_body rq), frame_time := now\<rparr>, ''OK'', 200) \<and>
      upload_audio s (request_data rq) now =
        (s\<lparr>current_audio := Some (request_body rq), audio_time := now\<rparr>, ''OK'', 200))"
  by (auto simp: upload_def upload_audio_def request_data_def)

theorem upload_answers_by_request_data_witness:
  "upload initial [] 7 = (initial, ''No data'', 400) \<and>
   upload_audio initial [] 7 = (initial, ''No data'', 400) \<and>
   ''ab'' \<noteq> [] \<and>
   upload initial ''ab'' 7 = (initial\<lparr>current_frame := Some ''ab'', frame_time := 7\<rparr>, ''OK'', 200) \<and>
   upload_audio initial ''ab'' 7 = (initial\<lparr>current_audio := Some ''ab'', audio_time := 7\<rparr>, ''OK'', 200) \<and>
   form_parsed \<lparr>request_body = ''a=1'', form_parsed = True\<rparr> \<and>
   upload initial (request_data \<lparr>request_body = ''a=1'', form_parsed = True\<rparr>) 7 =
     (initial, ''No data'', 400) \<and>
   request_body \<lparr>request_body = [], form_parsed = False\<rparr> = [] \<and>
   upload initial (request_data \<lparr>request_body = [], form_parsed = False\<rparr>) 7 =
     (initial, ''No data'', 400) \<and>
   request_body \<lparr>request_body = ''jpg'', form_parsed = False\<rparr> \<noteq> [] \<and>
   \<not> form_parsed \<lparr>request_body = ''jpg'', form_parsed = False\<rparr> \<and>
   upload initial (request_data \<lparr>request_body = ''jpg'', form_parsed = False\<rparr>) 7 =
     (initial\<lparr>current_frame := Some ''jpg'', frame_time := 7\<rparr>, ''OK'', 200) \<and>
   upload_audio initial (request_data \<lparr>request_body = ''jpg'', form_parsed = False\<rparr>) 7 =
     (initial\<lparr>current_audio := Some ''jpg'', audio_time := 7\<rparr>, ''OK'', 200)"
  using upload_answers_by_request_data
          [where s = initial and now = 7 and data = "''ab''"
             and rq = "\<lparr>request_body = ''a=1'', form_parsed = True\<rparr>"]
        upload_answers_by_request_data
          [where s = initial and now = 7 and data = "''ab''"
             and rq = "\<lparr>request_body = [], form_parsed = False\<rparr>"]
        upload_answers_by_request_data
          [where s = initial and now = 7 and data = "''ab''"
             and rq = "\<lparr>request_body = ''jpg'', form_parsed = False\<rparr>"]
  by simp

subsection \<open>Events that do not store leave the snapshot alone\<close>

lemma step_keeps_frame:
  "\<not> stores_frame e \<Longrightarrow> snapshot_frame (globals (step f r y e)) = snapshot_frame (globals y)"
  by (cases e)
     (auto simp: snapshot_frame_def upload_def upload_audio_def status_def Let_def
        gen_frames_next_def gen_frames_close_def gen_audio_next_def gen_audio_close_def
        gen_frames_load_def gen_audio_load_def
        gen_frames_iteration_def gen_audio_iteration_def snapshot_audio_def
        split: gen_pc.splits prod.splits)

lemma step_keeps_audio:
  "\<not> stores_audio e \<Longrightarrow> snapshot_audio (globals (step f r y e)) = snapshot_audio (globals y)"
  by (cases e)
     (auto simp: snapshot_frame_def upload_def upload_audio_def status_def Let_def
        gen_frames_next_def gen_frames_close_def gen_audio_next_def gen_audio_close_def
        gen_frames_load_def gen_audio_load_def
        gen_frames_iteration_def gen_audio_iteration_def snapshot_audio_def
        split: gen_pc.splits prod.splits)

lemma run_keeps_frame:
  "\<forall>e\<in>set evs. \<not> stores_frame e \<Longrightarrow>
   snapshot_frame (globals (run f r y evs)) = snapshot_frame (globals y)"
  by (induction evs arbitrary: y) (simp_all add: step_keeps_frame)

lemma run_keeps_audio:
  "\<forall>e\<in>set evs. \<not> stores_audio e \<Longrightarrow>
   snapshot_audio (globals (run f r y evs)) = snapshot_audio (globals y)"
  by (induction evs arbitrary: y) (simp_all add: step_keeps_audio)

text \<open>
  C1. After an upload whose \<open>request.data\<close> is the non-empty \<open>body\<close>, at clock reading
  \<open>now\<close>, which answers 200, the snapshot that the generators and the status handler read is \<open>(body, now)\<close>
  after every run of further events in which no frame is stored: the last upload that
  stored is the one observed. The same holds for the audio slot.
\<close>

theorem latest_upload_is_observed:
  assumes "body \<noteq> []"
  shows "snd (upload (globals y) body now) = (''OK'', 200) \<and>
         snd (upload_audio (globals y) body now) = (''OK'', 200) \<and>
         ((\<forall>e\<in>set evs. \<not> stores_frame e) \<longrightarrow>
            snapshot_frame (globals (run f r (step f r y (Upload body now)) evs)) = (Some body, now)) \<and>
         ((\<forall>e\<in>set evs. \<not> stores_audio e) \<longrightarrow>
            snapshot_audio (globals (run f r (step f r y (UploadAudio body now)) evs)) = (Some body, now))"
proof -
  have v: "snapshot_frame (globals (step f r y (Upload body now))) = (Some body, now)"
    using assms by (simp add: upload_def snapshot_frame_def)
  have a: "snapshot_audio (globals (step f r y (UploadAudio body now))) = (Some body, now)"
    using assms by (simp add: upload_audio_def snapshot_audio_def)
  show ?thesis
    using assms v a by (simp add: run_keeps_frame run_keeps_audio upload_def upload_audio_def)
qed

theorem latest_upload_is_observed_witness:
  "''jpg'' \<noteq> [] \<and>
   snapshot_frame (globals (run (\<lambda>t. ''12:00:00'') (\<lambda>t. ''1.5'')
      (step (\<lambda>t. ''12:00:00'') (\<lambda>t. ''1.5'') start (Upload ''jpg'' 3))
      [Upload [] 4, UploadAudio ''pcm'' 5, Stream, StreamNext 0 6, Status 7 7]))
     = (Some ''jpg'', 3) \<and>
   snapshot_audio (globals (run (\<lambda>t. ''12:00:00'') (\<lambda>t. ''1.5'')
      (step (\<lambda>t. ''12:00:00'') (\<lambda>t. ''1.5'') start (UploadAudio ''pcm'' 3))
      [UploadAudio [] 4, Upload ''jpg'' 5, AudioStream, AudioNext 0 6 6, Status 7 7]))
     = (Some ''pcm'', 3)"
  using latest_upload_is_observed
    [where body = "''jpg''" and y = start and now = 3 and f = "\<lambda>t. ''12:00:00''"
       and r = "\<lambda>t. ''1.5''"
       and evs = "[Upload [] 4, UploadAudio ''pcm'' 5, Stream, StreamNext 0 6, Status 7 7]"]
    latest_upload_is_observed
    [where body = "''pcm''" and y = start and now = 3 and f = "\<lambda>t. ''12:00:00''"
       and r = "\<lambda>t. ''1.5''"
       and evs = "[UploadAudio [] 4, Upload ''jpg'' 5, AudioStream, AudioNext 0 6 6, Status 7 7]"]
  by simp

subsection \<open>What the generators yield\<close>

lemma gen_frames_iteration_part:
  "snd (gen_frames_iteration s now) =
     multipart_part (case current_frame s of
                       None \<Rightarrow> []
                     | Some frame \<Rightarrow> if now - frame_time s < FRAME_EXPIRY_SECONDS then frame else [])"
  by (simp add: gen_frames_iteration_def snapshot_frame_def multipart_part_def split: option.splits)

text \<open>
  C2. The generators classify by \<open>age < threshold\<close>, the specification's \<open>isFresh\<close>, with
  threshold 10 for video and 5 for audio: with a frame stored, \<open>gen_frames\<close> yields the
  frame exactly when \<open>isFresh (now - frame_time) 10\<close>, and with a chunk stored,
  \<open>gen_audio\<close> yields the audio event exactly when \<open>isFresh (now - audio_time) 5\<close>. An
  age equal to the threshold is stale.
\<close>

theorem stream_freshness_is_age_below_threshold:
  "isFresh a T = (a < T) \<and> \<not> isFresh T T \<and>
   (current_frame s = Some frame \<longrightarrow>
      snd (gen_frames_iteration s now) =
        multipart_part (if isFresh (now - frame_time s) 10 then frame else [])) \<and>
   (current_audio s = Some audio \<longrightarrow>
      snd (gen_audio_iteration r s now now_hb) =
        (if isFresh (now - audio_time s) 5
         then ''data: {'' @ [CHR 0x27] @ ''audio'' @ [CHR 0x27] @ '': '' @ [CHR 0x27]
              @ b64encode audio @ [CHR 0x27] @ ''}'' @ [CHR 0x0A, CHR 0x0A]
         else ''data: {'' @ [CHR 0x27] @ ''heartbeat'' @ [CHR 0x27] @ '': ''
              @ r now_hb @ ''}'' @ [CHR 0x0A, CHR 0x0A]))"
  by (simp add: isFresh_def FRAME_EXPIRY_SECONDS_def AUDIO_EXPIRY_SECONDS_def
        gen_frames_iteration_part gen_audio_iteration_def snapshot_audio_def)

theorem stream_freshness_witness:
  "current_frame (initial\<lparr>current_frame := Some ''jpg'', frame_time := 0,
                          current_audio := Some ''a'', audio_time := 5\<rparr>) = Some ''jpg'' \<and>
   current_audio (initial\<lparr>current_frame := Some ''jpg'', frame_time := 0,
                          current_audio := Some ''a'', audio_time := 5\<rparr>) = Some ''a'' \<and>
   snd (gen_frames_iteration (initial\<lparr>current_frame := Some ''jpg'', frame_time := 0,
                          current_audio := Some ''a'', audio_time := 5\<rparr>) 10) =
     multipart_part [] \<and>
   snd (gen_audio_iteration (\<lambda>t. ''5.0'') (initial\<lparr>current_frame := Some ''jpg'', frame_time := 0,
                          current_audio := Some ''a'', audio_time := 5\<rparr>) 10 10) =
     ''data: {'' @ [CHR 0x27] @ ''heartbeat'' @ [CHR 0x27] @ '': 5.0}'' @ [CHR 0x0A, CHR 0x0A]"
  using stream_freshness_is_age_below_threshold
          [where s = "initial\<lparr>current_frame := Some ''jpg'', frame_time := 0,
                          current_audio := Some ''a'', audio_time := 5\<rparr>"
             and frame = "''jpg''" and now = 10 and audio = "''a''"
             and r = "\<lambda>t. ''5.0''" and now_hb = 10 and a = 1 and T = 2]
  by (simp add: isFresh_def)

text \<open>
  C4. Every pass of the video generator yields one part
  \<open>--frame\r\nContent-Type: image/jpeg\r\n\r\n\<close> + payload + \<open>\r\n\<close>, where the payload is
  the stored frame when there is one and its age is below the threshold, and empty when
  the slot is unset or the frame is stale. A generator that is not closed yields exactly
  this part on \<open>next\<close>.
\<close>

theorem gen_frames_part_format:
  "snd (gen_frames_iteration s now) =
     multipart_part (case current_frame s of
                       None \<Rightarrow> []
                     | Some frame \<Rightarrow> if now - frame_time s < FRAME_EXPIRY_SECONDS then frame else []) \<and>
   (pc \<noteq> Closed \<longrightarrow>
      snd (gen_frames_next s pc now) =
        Some (multipart_part (case current_frame s of
                       None \<Rightarrow> []
                     | Some frame \<Rightarrow> if now - frame_time s < FRAME_EXPIRY_SECONDS then frame else [])))"
proof -
  have "snd (gen_frames_next s pc now) =
          (case pc of
             Created \<Rightarrow> Some (snd (gen_frames_iteration (s\<lparr>clients_count := clients_count s + 1\<rparr>) now))
           | Loaded v \<Rightarrow> Some (snd (gen_frames_iteration (s\<lparr>clients_count := v + 1\<rparr>) now))
           | Suspended \<Rightarrow> Some (snd (gen_frames_iteration s now))
           | Closed \<Rightarrow> None)"
    by (cases pc) (simp_all add: gen_frames_next_def Let_def split: prod.splits)
  then show ?thesis
    by (cases pc) (auto simp: gen_frames_iteration_part split: option.splits)
qed

theorem gen_frames_part_format_witness:
  "Suspended \<noteq> Closed \<and>
   snd (gen_frames_next (initial\<lparr>current_frame := Some ''jpg'', frame_time := 2\<rparr>) Suspended 5) =
     Some (''--frame'' @ [CHR 0x0D, CHR 0x0A] @ ''Content-Type: image/jpeg''
           @ [CHR 0x0D, CHR 0x0A, CHR 0x0D, CHR 0x0A] @ ''jpg'' @ [CHR 0x0D, CHR 0x0A]) \<and>
   snd (gen_frames_next (initial\<lparr>current_frame := Some ''jpg'', frame_time := 2\<rparr>) Created 12) =
     Some (''--frame'' @ [CHR 0x0D, CHR 0x0A] @ ''Content-Type: image/jpeg''
           @ [CHR 0x0D, CHR 0x0A, CHR 0x0D, CHR 0x0A] @ [CHR 0x0D, CHR 0x0A]) \<and>
   snd (gen_frames_next initial Created 1) =
     Some (''--frame'' @ [CHR 0x0D, CHR 0x0A] @ ''Content-Type: image/jpeg''
           @ [CHR 0x0D, CHR 0x0A, CHR 0x0D, CHR 0x0A] @ [CHR 0x0D, CHR 0x0A])"
  using gen_frames_part_format [of "initial\<lparr>current_frame := Some ''jpg'', frame_time := 2\<rparr>" 5 Suspended]
        gen_frames_part_format [of "initial\<lparr>current_frame := Some ''jpg'', frame_time := 2\<rparr>" 12 Created]
        gen_frames_part_format [of initial 1 Created]
  by (simp add: initial_def multipart_part_def FRAME_EXPIRY_SECONDS_def)

text \<open>
  C5 (the code differs). With the one-byte chunk \<open>a\<close> stored at time 0 and read at
  time 1, the audio generator yields \<open>data: {'audio': 'YQ=='}\n\n\<close>, written with single
  quotes, which is not the specification's \<open>data: {"audio": "YQ=="}\n\n\<close>.
\<close>

theorem gen_audio_event_is_single_quoted:
  "snd (gen_audio_iteration (\<lambda>t. ''1.0'') (initial\<lparr>current_audio := Some ''a'', audio_time := 0\<rparr>) 1 1) =
     ''data: {'' @ [CHR 0x27] @ ''audio'' @ [CHR 0x27] @ '': '' @ [CHR 0x27] @ ''YQ==''
     @ [CHR 0x27] @ ''}'' @ [CHR 0x0A, CHR 0x0A] \<and>
   b64encode ''a'' = ''YQ=='' \<and>
   snd (gen_audio_iteration (\<lambda>t. ''1.0'') (initial\<lparr>current_audio := Some ''a'', audio_time := 0\<rparr>) 1 1) \<noteq>
     spec_audio_event (b64encode ''a'')"
  by (simp add: gen_audio_iteration_def snapshot_audio_def initial_def AUDIO_EXPIRY_SECONDS_def
        spec_audio_event_def b64_char_def b64_alphabet_def)

text \<open>
  C6 (the code differs). At an age equal to the threshold the two judgments disagree: for
  a frame stored at time 0 and read at time 10 the generator yields the empty part
  (stale) while the status handler reports \<open>Online\<close>; for a chunk stored at time 0 and
  read at time 5 the generator yields a heartbeat while the status handler reports
  \<open>Receiving audio\<close>.
\<close>

theorem boundary_age_stale_in_stream_online_in_status:
  "snd (gen_frames_iteration (initial\<lparr>current_frame := Some ''jpg'', frame_time := 0\<rparr>) 10) =
     multipart_part [] \<and>
   status_text (snd (status (\<lambda>t. ''00:00:00'')
      (initial\<lparr>current_frame := Some ''jpg'', frame_time := 0\<rparr>) 10 10)) = ''Online'' \<and>
   snd (gen_audio_iteration (\<lambda>t. ''5.0'') (initial\<lparr>current_audio := Some ''pcm'', audio_time := 0\<rparr>) 5 5) =
     ''data: {'' @ [CHR 0x27] @ ''heartbeat'' @ [CHR 0x27] @ '': 5.0}'' @ [CHR 0x0A, CHR 0x0A] \<and>
   audio_status (snd (status (\<lambda>t. ''00:00:00'')
      (initial\<lparr>current_audio := Some ''pcm'', audio_time := 0\<rparr>) 5 5)) = ''Receiving audio''"
  by (simp add: gen_frames_iteration_def gen_audio_iteration_def snapshot_frame_def
        snapshot_audio_def status_def initial_def multipart_part_def
        FRAME_EXPIRY_SECONDS_def AUDIO_EXPIRY_SECONDS_def)

subsection \<open>Connection counters\<close>

lemma gen_frames_session_steps:
  "gen_frames_load s Created = (s, Loaded (clients_count s))"
  "fst (gen_frames_next s (Loaded v) now) = (s\<lparr>clients_count := v + 1\<rparr>, Suspended)"
  "fst (gen_frames_next s Created now) = (s\<lparr>clients_count := clients_count s + 1\<rparr>, Suspended)"
  "fst (gen_frames_next s Suspended now) = (s, Suspended)"
  "fst (gen_frames_next s Closed now) = (s, Closed)"
  "gen_frames_close s Suspended = (s\<lparr>clients_count := clients_count s - 1\<rparr>, Closed)"
  "gen_frames_close s Created = (s, Closed)"
  "gen_frames_close s Closed = (s, Closed)"
  "gen_frames_close s (Loaded v) = (s, Loaded v)"
  by (simp_all add: gen_frames_load_def gen_frames_next_def gen_frames_close_def
        gen_frames_iteration_def Let_def snapshot_frame_def)

lemma gen_audio_session_steps:
  "gen_audio_load s Created = (s, Loaded (audio_clients_count s))"
  "fst (gen_audio_next r s (Loaded v) now now_hb) = (s\<lparr>audio_clients_count := v + 1\<rparr>, Suspended)"
  "fst (gen_audio_next r s Created now now_hb) =
     (s\<lparr>audio_clients_count := audio_clients_count s + 1\<rparr>, Suspended)"
  "fst (gen_audio_next r s Suspended now now_hb) = (s, Suspended)"
  "fst (gen_audio_next r s Closed now now_hb) = (s, Closed)"
  "gen_audio_close s Suspended = (s\<lparr>audio_clients_count := audio_clients_count s - 1\<rparr>, Closed)"
  "gen_audio_close s Created = (s, Closed)"
  "gen_audio_close s Closed = (s, Closed)"
  "gen_audio_close s (Loaded v) = (s, Loaded v)"
  by (simp_all add: gen_audio_load_def gen_audio_next_def gen_audio_close_def
        gen_audio_iteration_def Let_def snapshot_audio_def)

text \<open>
  C7 (the code differs). Each session executes its increment once and its decrement
  once, but the increment takes no lock, and its load and store can be separated. Two
  video sessions that both load 0 before either stores leave the counter at 1 with two
  sessions open, and at -1 when both have been closed. A session that loads 1 while
  another is open, and stores after that other has been closed, leaves the counter at 2
  with one session open. The audio counter behaves the same way. So the sessions that
  have ended do not leave the counter as they found it.
\<close>

theorem unlocked_increment_loses_updates:
  "run f r start [Stream, Stream, StreamLoad 0, StreamLoad 1, StreamNext 0 1, StreamNext 1 2] =
     \<lparr>globals = initial\<lparr>clients_count := 1\<rparr>,
      streams = [Suspended, Suspended], audio_streams = []\<rparr> \<and>
   run f r start [Stream, Stream, StreamLoad 0, StreamLoad 1, StreamNext 0 1, StreamNext 1 2,
                  StreamClose 0, StreamClose 1] =
     \<lparr>globals = initial\<lparr>clients_count := - 1\<rparr>,
      streams = [Closed, Closed], audio_streams = []\<rparr> \<and>
   run f r start [Stream, Stream, StreamNext 0 1, StreamLoad 1, StreamClose 0, StreamNext 1 2] =
     \<lparr>globals = initial\<lparr>clients_count := 2\<rparr>,
      streams = [Closed, Suspended], audio_streams = []\<rparr> \<and>
   run f r start [AudioStream, AudioStream, AudioLoad 0, AudioLoad 1, AudioNext 0 1 1,
                  AudioNext 1 2 2, AudioClose 0, AudioClose 1] =
     \<lparr>globals = initial\<lparr>audio_clients_count := - 1\<rparr>,
      streams = [], audio_streams = [Closed, Closed]\<rparr>"
  by (simp add: start_def initial_def gen_frames_session_steps gen_audio_session_steps)

subsection \<open>The audio slot before any upload\<close>

lemma heartbeat_is_no_audio_event:
  "''data: {'' @ [CHR 0x27] @ ''heartbeat'' @ [CHR 0x27] @ '': '' @ h @ ''}'' @ [CHR 0x0A, CHR 0x0A] \<noteq>
     ''data: {'' @ [CHR 0x27] @ ''audio'' @ [CHR 0x27] @ '': '' @ [CHR 0x27] @ b64 @ [CHR 0x27]
     @ ''}'' @ [CHR 0x0A, CHR 0x0A]"
  "''data: {'' @ [CHR 0x27] @ ''heartbeat'' @ [CHR 0x27] @ '': '' @ h @ ''}'' @ [CHR 0x0A, CHR 0x0A] \<noteq>
     spec_audio_event b64"
  by (simp_all add: spec_audio_event_def)

lemma status_without_audio:
  "current_audio s = None \<Longrightarrow>
   audio_status (snd (status f s now_v now_a)) = ''No audio received yet''"
  by (simp add: status_def Let_def)

lemma gen_audio_without_audio:
  "current_audio s = None \<Longrightarrow>
   snd (gen_audio_iteration r s now now_hb) =
     ''data: {'' @ [CHR 0x27] @ ''heartbeat'' @ [CHR 0x27] @ '': '' @ r now_hb @ ''}''
     @ [CHR 0x0A, CHR 0x0A]"
  by (simp add: gen_audio_iteration_def snapshot_audio_def)

lemma gen_audio_next_without_audio:
  "current_audio s = None \<Longrightarrow> pc \<noteq> Closed \<Longrightarrow>
   snd (gen_audio_next r s pc now now_hb) =
     Some (''data: {'' @ [CHR 0x27] @ ''heartbeat'' @ [CHR 0x27] @ '': '' @ r now_hb @ ''}''
           @ [CHR 0x0A, CHR 0x0A])"
  by (cases pc)
     (simp_all add: gen_audio_next_def gen_audio_iteration_def snapshot_audio_def Let_def)

text \<open>
  C8. After every run from the start in which no audio chunk is stored, \<open>current_audio\<close>
  is still \<open>None\<close>, the status handler reports \<open>No audio received yet\<close>, and every pass
  of the audio generator yields the heartbeat event, which is never an audio event (in
  the code's or in the specification's quoting).
\<close>

theorem never_set_audio_gives_status_text_and_heartbeats:
  assumes "\<forall>e\<in>set evs. \<not> stores_audio e"
  shows "current_audio (globals (run f r start evs)) = None \<and>
         audio_status (snd (status f (globals (run f r start evs)) now_v now_a)) =
           ''No audio received yet'' \<and>
         snd (gen_audio_iteration r (globals (run f r start evs)) now now_hb) =
           ''data: {'' @ [CHR 0x27] @ ''heartbeat'' @ [CHR 0x27] @ '': '' @ r now_hb @ ''}''
           @ [CHR 0x0A, CHR 0x0A] \<and>
         (pc \<noteq> Closed \<longrightarrow>
            snd (gen_audio_next r (globals (run f r start evs)) pc now now_hb) =
              Some (''data: {'' @ [CHR 0x27] @ ''heartbeat'' @ [CHR 0x27] @ '': '' @ r now_hb @ ''}''
                    @ [CHR 0x0A, CHR 0x0A])) \<and>
         (\<forall>b64. snd (gen_audio_iteration r (globals (run f r start evs)) now now_hb) \<noteq>
                  ''data: {'' @ [CHR 0x27] @ ''audio'' @ [CHR 0x27] @ '': '' @ [CHR 0x27] @ b64
                  @ [CHR 0x27] @ ''}'' @ [CHR 0x0A, CHR 0x0A] \<and>
                snd (gen_audio_iteration r (globals (run f r start evs)) now now_hb) \<noteq>
                  spec_audio_event b64)"
proof -
  have "snapshot_audio (globals (run f r start evs)) = snapshot_audio (globals start)"
    using assms by (rule run_keeps_audio)
  then have n: "current_audio (globals (run f r start evs)) = None"
    by (simp add: snapshot_audio_def start_def initial_def)
  have g: "snd (gen_audio_iteration r (globals (run f r start evs)) now now_hb) =
           ''data: {'' @ [CHR 0x27] @ ''heartbeat'' @ [CHR 0x27] @ '': '' @ r now_hb @ ''}''
           @ [CHR 0x0A, CHR 0x0A]"
    using n by (rule gen_audio_without_audio)
  have x: "pc \<noteq> Closed \<longrightarrow>
            snd (gen_audio_next r (globals (run f r start evs)) pc now now_hb) =
              Some (''data: {'' @ [CHR 0x27] @ ''heartbeat'' @ [CHR 0x27] @ '': '' @ r now_hb @ ''}''
                    @ [CHR 0x0A, CHR 0x0A])"
    using n by (simp add: gen_audio_next_without_audio)
  have h: "\<forall>b64. snd (gen_audio_iteration r (globals (run f r start evs)) now now_hb) \<noteq>
                  ''data: {'' @ [CHR 0x27] @ ''audio'' @ [CHR 0x27] @ '': '' @ [CHR 0x27] @ b64
                  @ [CHR 0x27] @ ''}'' @ [CHR 0x0A, CHR 0x0A] \<and>
                snd (gen_audio_iteration r (globals (run f r start evs)) now now_hb) \<noteq>
                  spec_audio_event b64"
    unfolding g using heartbeat_is_no_audio_event by blast
  from n status_without_audio [OF n] g x h show ?thesis by blast
qed

theorem never_set_audio_witness:
  "current_audio (globals (run (\<lambda>t. ''12:00:00'') (\<lambda>t. ''7.5'') start
      [Upload ''jpg'' 1, UploadAudio [] 2, AudioStream, AudioNext 0 3 3])) = None \<and>
   audio_status (snd (status (\<lambda>t. ''12:00:00'') (globals (run (\<lambda>t. ''12:00:00'') (\<lambda>t. ''7.5'') start
      [Upload ''jpg'' 1, UploadAudio [] 2, AudioStream, AudioNext 0 3 3])) 4 4)) =
     ''No audio received yet'' \<and>
   Suspended \<noteq> Closed \<and>
   snd (gen_audio_next (\<lambda>t. ''7.5'') (globals (run (\<lambda>t. ''12:00:00'') (\<lambda>t. ''7.5'') start
      [Upload ''jpg'' 1, UploadAudio [] 2, AudioStream, AudioNext 0 3 3])) Suspended 5 5) =
     Some (''data: {'' @ [CHR 0x27] @ ''heartbeat'' @ [CHR 0x27] @ '': 7.5}'' @ [CHR 0x0A, CHR 0x0A])"
  using never_set_audio_gives_status_text_and_heartbeats
    [where f = "\<lambda>t. ''12:00:00''" and r = "\<lambda>t. ''7.5''" and now_v = 4 and now_a = 4
       and now = 5 and now_hb = 5 and pc = Suspended
       and evs = "[Upload ''jpg'' 1, UploadAudio [] 2, AudioStream, AudioNext 0 3 3]"]
  by simp

subsection \<open>Who writes the slots\<close>

lemma step_slots:
  "slots (globals (step f r y e)) \<noteq> slots (globals y) \<Longrightarrow> stores_frame e \<or> stores_audio e"
  using step_keeps_frame [of e f r y] step_keeps_audio [of e f r y]
  by (auto simp: slots_def)

text \<open>
  C9. The status handler returns the globals as it found them, counters included, and so
  does every pass of either generator and the load that begins a generator's first
  \<open>next\<close>; \<open>next\<close> and \<open>close\<close> of either generator leave
  \<open>current_frame\<close>, \<open>frame_time\<close>, \<open>current_audio\<close> and \<open>audio_time\<close> unchanged. An event
  of the server that changes one of these four is an upload that stores.
\<close>

theorem readers_leave_slots_unchanged:
  "fst (status f s now_v now_a) = s \<and>
   fst (gen_frames_iteration s now) = s \<and>
   fst (gen_audio_iteration r s now now_hb) = s \<and>
   slots (fst (fst (gen_frames_next s pc now))) = slots s \<and>
   slots (fst (fst (gen_audio_next r s pc now now_hb))) = slots s \<and>
   slots (fst (gen_frames_close s pc)) = slots s \<and>
   slots (fst (gen_audio_close s pc)) = slots s \<and>
   fst (gen_frames_load s pc) = s \<and>
   fst (gen_audio_load s pc) = s \<and>
   (slots (globals (step f r y e)) \<noteq> slots (globals y) \<longrightarrow> stores_frame e \<or> stores_audio e)"
proof -
  have a: "fst (status f s now_v now_a) = s"
    by (simp add: status_def Let_def)
  have b: "fst (gen_frames_iteration s now) = s"
    by (simp add: gen_frames_iteration_def snapshot_frame_def)
  have c: "fst (gen_audio_iteration r s now now_hb) = s"
    by (simp add: gen_audio_iteration_def snapshot_audio_def)
  have d: "slots (fst (fst (gen_frames_next s pc now))) = slots s"
    by (cases pc)
       (simp_all add: gen_frames_session_steps slots_def snapshot_frame_def snapshot_audio_def)
  have e: "slots (fst (fst (gen_audio_next r s pc now now_hb))) = slots s"
    by (cases pc)
       (simp_all add: gen_audio_session_steps slots_def snapshot_frame_def snapshot_audio_def)
  have g: "slots (fst (gen_frames_close s pc)) = slots s"
    by (cases pc)
       (simp_all add: gen_frames_session_steps slots_def snapshot_frame_def snapshot_audio_def)
  have h: "slots (fst (gen_audio_close s pc)) = slots s"
    by (cases pc)
       (simp_all add: gen_audio_session_steps slots_def snapshot_frame_def snapshot_audio_def)
  have i: "fst (gen_frames_load s pc) = s"
    by (cases pc) (simp_all add: gen_frames_load_def)
  have j: "fst (gen_audio_load s pc) = s"
    by (cases pc) (simp_all add: gen_audio_load_def)
  from a b c d e g h i j step_slots [of f r y e] show ?thesis by blast
qed

theorem readers_leave_slots_unchanged_witness:
  "slots (globals (step (\<lambda>t. ''12:00:00'') (\<lambda>t. ''1.5'') start (Upload ''jpg'' 3))) \<noteq>
     slots (globals start) \<and>
   stores_frame (Upload ''jpg'' 3) \<and>
   fst (status (\<lambda>t. ''12:00:00'') (initial\<lparr>current_frame := Some ''jpg'', frame_time := 3\<rparr>) 20 20) =
     initial\<lparr>current_frame := Some ''jpg'', frame_time := 3\<rparr>"
  using readers_leave_slots_unchanged
    [where f = "\<lambda>t. ''12:00:00''" and r = "\<lambda>t. ''1.5''" and y = start and e = "Upload ''jpg'' 3"
       and s = "initial\<lparr>current_frame := Some ''jpg'', frame_time := 3\<rparr>" and now_v = 20
       and now_a = 20 and now = 1 and now_hb = 1 and pc = Created]
  by (simp add: slots_def snapshot_frame_def snapshot_audio_def start_def initial_def upload_def)

subsection \<open>A slot that has been set\<close>

lemma run_append:
  "run f r y (xs @ ys) = run f r (run f r y xs) ys"
  by (induction xs arbitrary: y) simp_all

lemma frame_upload_times_append:
  "frame_upload_times (xs @ ys) = frame_upload_times xs @ frame_upload_times ys"
  by (induction xs rule: frame_upload_times.induct) simp_all

lemma audio_upload_times_append:
  "audio_upload_times (xs @ ys) = audio_upload_times xs @ audio_upload_times ys"
  by (induction xs rule: audio_upload_times.induct) simp_all

lemma step_frame_time:
  "frame_time (globals (step f r y e)) = last (frame_time (globals y) # frame_upload_times [e])"
proof (cases "stores_frame e")
  case True
  then show ?thesis by (cases e) (simp_all add: upload_def)
next
  case False
  from step_keeps_frame [OF False, of f r y]
  have "frame_time (globals (step f r y e)) = frame_time (globals y)"
    by (simp add: snapshot_frame_def)
  with False show ?thesis by (cases e) simp_all
qed

lemma step_audio_time:
  "audio_time (globals (step f r y e)) = last (audio_time (globals y) # audio_upload_times [e])"
proof (cases "stores_audio e")
  case True
  then show ?thesis by (cases e) (simp_all add: upload_audio_def)
next
  case False
  from step_keeps_audio [OF False, of f r y]
  have "audio_time (globals (step f r y e)) = audio_time (globals y)"
    by (simp add: snapshot_audio_def)
  with False show ?thesis by (cases e) simp_all
qed

lemma run_frame_time:
  "frame_time (globals (run f r y evs)) = last (frame_time (globals y) # frame_upload_times evs)"
proof (induction evs arbitrary: y)
  case Nil
  then show ?case by simp
next
  case (Cons e es)
  have "frame_upload_times (e # es) = frame_upload_times [e] @ frame_upload_times es"
    using frame_upload_times_append [of "[e]" es] by simp
  then show ?case
    using Cons.IH [of "step f r y e"] step_frame_time [of f r y e] by simp
qed

lemma run_audio_time:
  "audio_time (globals (run f r y evs)) = last (audio_time (globals y) # audio_upload_times evs)"
proof (induction evs arbitrary: y)
  case Nil
  then show ?case by simp
next
  case (Cons e es)
  have "audio_upload_times (e # es) = audio_upload_times [e] @ audio_upload_times es"
    using audio_upload_times_append [of "[e]" es] by simp
  then show ?case
    using Cons.IH [of "step f r y e"] step_audio_time [of f r y e] by simp
qed

lemma sorted_last_prefix:
  fixes t :: real
  assumes "sorted (t # as @ bs)"
  shows "last (t # as) \<le> last (t # as @ bs)"
proof (cases bs)
  case Nil
  then show ?thesis by simp
next
  case (Cons b bs')
  have "sorted ((t # as) @ bs)" using assms by simp
  then have "\<forall>x\<in>set (t # as). \<forall>y\<in>set bs. x \<le> y"
    unfolding sorted_append by blast
  moreover have "last (t # as) \<in> set (t # as)" by (rule last_in_set) simp
  moreover have "last bs \<in> set bs" using Cons by (intro last_in_set) simp
  ultimately have "last (t # as) \<le> last bs" by blast
  moreover have "last (t # as @ bs) = last bs" using Cons by simp
  ultimately show ?thesis by simp
qed

lemma step_keeps_set_frame:
  "current_frame (globals y) \<noteq> None \<Longrightarrow> current_frame (globals (step f r y e)) \<noteq> None"
proof (cases "stores_frame e")
  case True
  then show ?thesis by (cases e) (simp_all add: upload_def)
next
  case False
  assume "current_frame (globals y) \<noteq> None"
  with step_keeps_frame [OF False, of f r y] show ?thesis
    by (simp add: snapshot_frame_def)
qed

lemma step_keeps_set_audio:
  "current_audio (globals y) \<noteq> None \<Longrightarrow> current_audio (globals (step f r y e)) \<noteq> None"
proof (cases "stores_audio e")
  case True
  then show ?thesis by (cases e) (simp_all add: upload_audio_def)
next
  case False
  assume "current_audio (globals y) \<noteq> None"
  with step_keeps_audio [OF False, of f r y] show ?thesis
    by (simp add: snapshot_audio_def)
qed

lemma run_keeps_set_frame:
  "current_frame (globals y) \<noteq> None \<Longrightarrow> current_frame (globals (run f r y evs)) \<noteq> None"
proof (induction evs arbitrary: y)
  case Nil
  then show ?case by simp
next
  case (Cons e es)
  from Cons.prems have "current_frame (globals (step f r y e)) \<noteq> None"
    by (rule step_keeps_set_frame)
  then have "current_frame (globals (run f r (step f r y e) es)) \<noteq> None"
    by (rule Cons.IH)
  then show ?case by simp
qed

lemma run_keeps_set_audio:
  "current_audio (globals y) \<noteq> None \<Longrightarrow> current_audio (globals (run f r y evs)) \<noteq> None"
proof (induction evs arbitrary: y)
  case Nil
  then show ?case by simp
next
  case (Cons e es)
  from Cons.prems have "current_audio (globals (step f r y e)) \<noteq> None"
    by (rule step_keeps_set_audio)
  then have "current_audio (globals (run f r (step f r y e) es)) \<noteq> None"
    by (rule Cons.IH)
  then show ?case by simp
qed

lemma status_with_frame:
  "current_frame s \<noteq> None \<Longrightarrow>
   status_text (snd (status f s now_v now_a)) \<noteq> ''No frames received yet''"
  by (simp add: status_def Let_def)

lemma status_with_audio:
  "current_audio s \<noteq> None \<Longrightarrow>
   audio_status (snd (status f s now_v now_a)) \<noteq> ''No audio received yet''"
  by (simp add: status_def Let_def)

lemma run_frame_time_mono:
  assumes "sorted (frame_time (globals y) # frame_upload_times (xs @ ys))"
  shows "frame_time (globals (run f r y xs)) \<le> frame_time (globals (run f r y (xs @ ys)))"
  using sorted_last_prefix [of "frame_time (globals y)" "frame_upload_times xs" "frame_upload_times ys"] assms
  by (simp add: run_frame_time frame_upload_times_append)

lemma run_audio_time_mono:
  assumes "sorted (audio_time (globals y) # audio_upload_times (xs @ ys))"
  shows "audio_time (globals (run f r y xs)) \<le> audio_time (globals (run f r y (xs @ ys)))"
  using sorted_last_prefix [of "audio_time (globals y)" "audio_upload_times xs" "audio_upload_times ys"] assms
  by (simp add: run_audio_time audio_upload_times_append)

text \<open>
  C10, as stated, fails in its middle part: the stored timestamp is whatever
  \<open>time.time()\<close> returned at the upload, and that clock can be set back. After an upload
  at reading 100, an upload at reading 50 lowers \<open>frame_time\<close> from 100 to 50.
\<close>

theorem upload_after_clock_set_back_lowers_frame_time:
  "current_frame (fst (upload initial ''a'' 100)) = Some ''a'' \<and>
   frame_time (fst (upload initial ''a'' 100)) = 100 \<and>
   frame_time (fst (upload (fst (upload initial ''a'' 100)) ''b'' 50)) = 50 \<and>
   frame_time (fst (upload (fst (upload initial ''a'' 100)) ''b'' 50)) <
     frame_time (fst (upload initial ''a'' 100))"
  by (simp add: upload_def initial_def)

text \<open>
  C10, amended. Once a slot holds a payload it holds one after every run of events, and
  the status handler never again reports \<open>No frames received yet\<close> (for audio,
  \<open>No audio received yet\<close>). If the clock readings that the uploads of a run store,
  preceded by the timestamp stored before the run, are non-decreasing, then the stored
  timestamp after any prefix of the run is at most the stored timestamp after the whole
  run.
\<close>

theorem slot_once_set_stays_set:
  "(current_frame (globals y) \<noteq> None \<longrightarrow>
      current_frame (globals (run f r y evs)) \<noteq> None \<and>
      status_text (snd (status f (globals (run f r y evs)) now_v now_a)) \<noteq>
        ''No frames received yet'') \<and>
   (current_audio (globals y) \<noteq> None \<longrightarrow>
      current_audio (globals (run f r y evs)) \<noteq> None \<and>
      audio_status (snd (status f (globals (run f r y evs)) now_v now_a)) \<noteq>
        ''No audio received yet'') \<and>
   (sorted (frame_time (globals y) # frame_upload_times (xs @ ys)) \<longrightarrow>
      frame_time (globals (run f r y xs)) \<le> frame_time (globals (run f r y (xs @ ys)))) \<and>
   (sorted (audio_time (globals y) # audio_upload_times (xs @ ys)) \<longrightarrow>
      audio_time (globals (run f r y xs)) \<le> audio_time (globals (run f r y (xs @ ys))))"
  using run_keeps_set_frame [of y f r evs] run_keeps_set_audio [of y f r evs]
    status_with_frame [of "globals (run f r y evs)" f now_v now_a]
    status_with_audio [of "globals (run f r y evs)" f now_v now_a]
    run_frame_time_mono [of y xs ys f r] run_audio_time_mono [of y xs ys f r]
  by blast

theorem slot_once_set_stays_set_witness:
  "current_frame (globals (run (\<lambda>t. ''12:00:00'') (\<lambda>t. ''1.5'') start
      [Upload ''a'' 1, UploadAudio ''p'' 2])) \<noteq> None \<and>
   current_audio (globals (run (\<lambda>t. ''12:00:00'') (\<lambda>t. ''1.5'') start
      [Upload ''a'' 1, UploadAudio ''p'' 2])) \<noteq> None \<and>
   sorted (frame_time (globals (run (\<lambda>t. ''12:00:00'') (\<lambda>t. ''1.5'') start
      [Upload ''a'' 1, UploadAudio ''p'' 2])) #
      frame_upload_times ([Upload ''b'' 3, Status 4 4] @ [Upload [] 5, Upload ''c'' 6, UploadAudio ''q'' 7])) \<and>
   sorted (audio_time (globals (run (\<lambda>t. ''12:00:00'') (\<lambda>t. ''1.5'') start
      [Upload ''a'' 1, UploadAudio ''p'' 2])) #
      audio_upload_times ([Upload ''b'' 3, Status 4 4] @ [Upload [] 5, Upload ''c'' 6, UploadAudio ''q'' 7])) \<and>
   current_frame (globals (run (\<lambda>t. ''12:00:00'') (\<lambda>t. ''1.5'')
      (run (\<lambda>t. ''12:00:00'') (\<lambda>t. ''1.5'') start [Upload ''a'' 1, UploadAudio ''p'' 2])
      [Upload [] 5, Status 30 30])) \<noteq> None \<and>
   status_text (snd (status (\<lambda>t. ''12:00:00'') (globals (run (\<lambda>t. ''12:00:00'') (\<lambda>t. ''1.5'')
      (run (\<lambda>t. ''12:00:00'') (\<lambda>t. ''1.5'') start [Upload ''a'' 1, UploadAudio ''p'' 2])
      [Upload [] 5, Status 30 30])) 40 40)) \<noteq> ''No frames received yet'' \<and>
   audio_status (snd (status (\<lambda>t. ''12:00:00'') (globals (run (\<lambda>t. ''12:00:00'') (\<lambda>t. ''1.5'')
      (run (\<lambda>t. ''12:00:00'') (\<lambda>t. ''1.5'') start [Upload ''a'' 1, UploadAudio ''p'' 2])
      [Upload [] 5, Status 30 30])) 40 40)) \<noteq> ''No audio received yet'' \<and>
   frame_time (globals (run (\<lambda>t. ''12:00:00'') (\<lambda>t. ''1.5'')
      (run (\<lambda>t. ''12:00:00'') (\<lambda>t. ''1.5'') start [Upload ''a'' 1, UploadAudio ''p'' 2])
      [Upload ''b'' 3, Status 4 4])) \<le>
   frame_time (globals (run (\<lambda>t. ''12:00:00'') (\<lambda>t. ''1.5'')
      (run (\<lambda>t. ''12:00:00'') (\<lambda>t. ''1.5'') start [Upload ''a'' 1, UploadAudio ''p'' 2])
      ([Upload ''b'' 3, Status 4 4] @ [Upload [] 5, Upload ''c'' 6, UploadAudio ''q'' 7])))"
proof -
  have y: "globals (run (\<lambda>t. ''12:00:00'') (\<lambda>t. ''1.5'') start [Upload ''a'' 1, UploadAudio ''p'' 2]) =
           initial\<lparr>current_frame := Some ''a'', frame_time := 1,
                   current_audio := Some ''p'', audio_time := 2\<rparr>"
    by (simp add: start_def upload_def upload_audio_def)
  show ?thesis
    using slot_once_set_stays_set
      [where f = "\<lambda>t. ''12:00:00''" and r = "\<lambda>t. ''1.5''" and now_v = 40 and now_a = 40
         and y = "run (\<lambda>t. ''12:00:00'') (\<lambda>t. ''1.5'') start [Upload ''a'' 1, UploadAudio ''p'' 2]"
         and evs = "[Upload [] 5, Status 30 30]"
         and xs = "[Upload ''b'' 3, Status 4 4]"
         and ys = "[Upload [] 5, Upload ''c'' 6, UploadAudio ''q'' 7]"]
    unfolding y by simp
qed

end
